theory Spec2Isabelle
  imports Complex_Main "HOL-Library.AList"
begin

section \<open>JavaScript numbers\<close>

text \<open>
  A JavaScript number is NaN, one of the two infinities, or a finite value. Finite
  values are kept as exact reals: rounding to binary64, overflow of finite arithmetic
  to an infinity and the sign of zero are not part of the model. Every comparison with
  NaN is false and every sum, product or quotient with NaN is NaN, as in the language.
\<close>

datatype jsnum = NaN | PInf | NInf | Fin real

fun js_neg :: "jsnum \<Rightarrow> jsnum" where
  "js_neg NaN = NaN"
| "js_neg PInf = NInf"
| "js_neg NInf = PInf"
| "js_neg (Fin a) = Fin (- a)"

fun js_abs :: "jsnum \<Rightarrow> jsnum" where
  "js_abs NaN = NaN"
| "js_abs PInf = PInf"
| "js_abs NInf = PInf"
| "js_abs (Fin a) = Fin \<bar>a\<bar>"

fun js_add :: "jsnum \<Rightarrow> jsnum \<Rightarrow> jsnum" where
  "js_add (Fin a) (Fin b) = Fin (a + b)"
| "js_add NaN _ = NaN"
| "js_add _ NaN = NaN"
| "js_add PInf NInf = NaN"
| "js_add NInf PInf = NaN"
| "js_add PInf _ = PInf"
| "js_add NInf _ = NInf"
| "js_add _ PInf = PInf"
| "js_add _ NInf = NInf"

definition js_sub :: "jsnum \<Rightarrow> jsnum \<Rightarrow> jsnum" where
  "js_sub a b = js_add a (js_neg b)"

text \<open>The sign of a number that is not NaN: \<open>1\<close>, \<open>0\<close> or \<open>-1\<close>.\<close>

fun js_sgn :: "jsnum \<Rightarrow> real" where
  "js_sgn NaN = 0"
| "js_sgn PInf = 1"
| "js_sgn NInf = - 1"
| "js_sgn (Fin a) = sgn a"

definition signed_inf :: "real \<Rightarrow> jsnum" where
  "signed_inf s = (if s = 0 then NaN else if 0 < s then PInf else NInf)"

fun js_mul :: "jsnum \<Rightarrow> jsnum \<Rightarrow> jsnum" where
  "js_mul (Fin a) (Fin b) = Fin (a * b)"
| "js_mul NaN _ = NaN"
| "js_mul _ NaN = NaN"
| "js_mul a b = signed_inf (js_sgn a * js_sgn b)"

text \<open>
  Division. A finite quotient with a zero divisor is NaN for \<open>0/0\<close> and an infinity
  otherwise (its sign is that of the dividend here, the divisor's zero being unsigned
  in this model); the summary only divides after testing the divisor against zero.
\<close>

fun js_div :: "jsnum \<Rightarrow> jsnum \<Rightarrow> jsnum" where
  "js_div (Fin a) (Fin b) = (if b = 0 then signed_inf (sgn a) else Fin (a / b))"
| "js_div NaN _ = NaN"
| "js_div _ NaN = NaN"
| "js_div (Fin a) _ = Fin 0"
| "js_div a (Fin b) = signed_inf (js_sgn a * (if b < 0 then - 1 else 1))"
| "js_div _ _ = NaN"

fun js_gt :: "jsnum \<Rightarrow> jsnum \<Rightarrow> bool" where
  "js_gt (Fin a) (Fin b) = (a > b)"
| "js_gt NaN _ = False"
| "js_gt _ NaN = False"
| "js_gt PInf b = (b \<noteq> PInf)"
| "js_gt NInf _ = False"
| "js_gt (Fin a) NInf = True"
| "js_gt (Fin a) PInf = False"

definition js_lt :: "jsnum \<Rightarrow> jsnum \<Rightarrow> bool" where
  "js_lt a b = js_gt b a"

text \<open>Strict inequality \<open>a !== b\<close> of two numbers: NaN differs from everything.\<close>

definition js_sne :: "jsnum \<Rightarrow> jsnum \<Rightarrow> bool" where
  "js_sne a b = (\<not> (a \<noteq> NaN \<and> b \<noteq> NaN \<and> a = b))"

definition isNaN :: "jsnum \<Rightarrow> bool" where
  "isNaN a = (a = NaN)"

definition isInteger :: "jsnum \<Rightarrow> bool" where
  "isInteger a = (case a of Fin x \<Rightarrow> x = of_int \<lfloor>x\<rfloor> | _ \<Rightarrow> False)"

section \<open>JavaScript values and conversions\<close>

datatype jsval = JUndefined | JNull | JBool bool | JNum jsnum | JStr string

text \<open>
  White space trimmed by the string-to-number conversions. Strings are byte lists, and
  only the ASCII members of the language's white space are modelled: the conversions
  below are those of the language on ASCII text, and the theorems that depend on
  trimming are stated for ASCII text.
\<close>

definition isStrWhiteSpaceChar :: "char \<Rightarrow> bool" where
  "isStrWhiteSpaceChar c = (c \<in> set [CHR 0x09, CHR 0x0A, CHR 0x0B, CHR 0x0C, CHR 0x0D, CHR '' ''])"

definition trimLeft :: "string \<Rightarrow> string" where
  "trimLeft s = dropWhile isStrWhiteSpaceChar s"

definition trimString :: "string \<Rightarrow> string" where
  "trimString s = rev (trimLeft (rev (trimLeft s)))"

definition digitValue :: "char \<Rightarrow> nat option" where
  "digitValue c = map_of
     [(CHR ''0'', 0), (CHR ''1'', 1), (CHR ''2'', 2), (CHR ''3'', 3), (CHR ''4'', 4),
      (CHR ''5'', 5), (CHR ''6'', 6), (CHR ''7'', 7), (CHR ''8'', 8), (CHR ''9'', 9),
      (CHR ''a'', 10), (CHR ''b'', 11), (CHR ''c'', 12), (CHR ''d'', 13), (CHR ''e'', 14),
      (CHR ''f'', 15), (CHR ''A'', 10), (CHR ''B'', 11), (CHR ''C'', 12), (CHR ''D'', 13),
      (CHR ''E'', 14), (CHR ''F'', 15)] c"

definition isDigitIn :: "nat \<Rightarrow> char \<Rightarrow> bool" where
  "isDigitIn r c = (case digitValue c of None \<Rightarrow> False | Some d \<Rightarrow> d < r)"

definition digitsValue :: "nat \<Rightarrow> string \<Rightarrow> nat" where
  "digitsValue r s = foldl (\<lambda>a c. a * r + (case digitValue c of None \<Rightarrow> 0 | Some d \<Rightarrow> d)) 0 s"

definition isDigits :: "nat \<Rightarrow> string \<Rightarrow> bool" where
  "isDigits r s = (s \<noteq> [] \<and> list_all (isDigitIn r) s)"

text \<open>Cut a string at the first character satisfying \<open>p\<close>; the cut character is dropped.\<close>

definition cutAt :: "(char \<Rightarrow> bool) \<Rightarrow> string \<Rightarrow> string \<times> string option" where
  "cutAt p s = (takeWhile (\<lambda>c. \<not> p c) s,
                case dropWhile (\<lambda>c. \<not> p c) s of [] \<Rightarrow> None | _ # r \<Rightarrow> Some r)"

text \<open>The exponent's \<open>SignedInteger\<close>: digits with an optional sign.\<close>

definition signedInteger :: "string \<Rightarrow> int option" where
  "signedInteger s =
     (case s of
        [] \<Rightarrow> None
      | c # r \<Rightarrow>
          if c = CHR ''+'' then (if isDigits 10 r then Some (int (digitsValue 10 r)) else None)
          else if c = CHR ''-'' then (if isDigits 10 r then Some (- int (digitsValue 10 r)) else None)
          else if isDigits 10 s then Some (int (digitsValue 10 s)) else None)"

definition pow10 :: "int \<Rightarrow> real" where
  "pow10 e = (if 0 \<le> e then 10 ^ nat e else 1 / 10 ^ nat (- e))"

text \<open>
  \<open>StrUnsignedDecimalLiteral\<close>: \<open>Infinity\<close>, or digits with an optional fraction and an
  optional exponent, at least one digit standing before the exponent.
\<close>

definition unsignedDecimal :: "string \<Rightarrow> jsnum" where
  "unsignedDecimal s =
     (if s = ''Infinity'' then PInf
      else
        let (m, e) = cutAt (\<lambda>c. c = CHR ''e'' \<or> c = CHR ''E'') s;
            (i, f) = cutAt (\<lambda>c. c = CHR ''.'') m;
            fr = (case f of None \<Rightarrow> [] | Some x \<Rightarrow> x)
        in case (case e of None \<Rightarrow> Some 0 | Some es \<Rightarrow> signedInteger es) of
             None \<Rightarrow> NaN
           | Some ex \<Rightarrow>
               if list_all (isDigitIn 10) i \<and> list_all (isDigitIn 10) fr \<and> (i \<noteq> [] \<or> fr \<noteq> [])
               then Fin ((real (digitsValue 10 i) + real (digitsValue 10 fr) / 10 ^ length fr)
                         * pow10 ex)
               else NaN)"

definition decimalLiteral :: "string \<Rightarrow> jsnum" where
  "decimalLiteral s =
     (case s of
        [] \<Rightarrow> NaN
      | c # r \<Rightarrow>
          if c = CHR ''+'' then unsignedDecimal r
          else if c = CHR ''-'' then js_neg (unsignedDecimal r)
          else unsignedDecimal s)"

definition nonDecimalLiteral :: "nat \<Rightarrow> string \<Rightarrow> jsnum" where
  "nonDecimalLiteral r s = (if isDigits r s then Fin (real (digitsValue r s)) else NaN)"

text \<open>
  The conversion of a string to a number (unary plus, \<open>Number(s)\<close>): the trimmed string
  is empty (giving 0), a hexadecimal, octal or binary literal without sign, or a signed
  decimal literal; anything else is NaN.
\<close>

definition StringToNumber :: "string \<Rightarrow> jsnum" where
  "StringToNumber s =
     (case trimString s of
        [] \<Rightarrow> Fin 0
      | [c] \<Rightarrow> decimalLiteral [c]
      | c # x # r \<Rightarrow>
          if c = CHR ''0'' \<and> (x = CHR ''x'' \<or> x = CHR ''X'') then nonDecimalLiteral 16 r
          else if c = CHR ''0'' \<and> (x = CHR ''o'' \<or> x = CHR ''O'') then nonDecimalLiteral 8 r
          else if c = CHR ''0'' \<and> (x = CHR ''b'' \<or> x = CHR ''B'') then nonDecimalLiteral 2 r
          else decimalLiteral (c # x # r))"






fun ToNumber :: "jsval \<Rightarrow> jsnum" where
  "ToNumber JUndefined = NaN"
| "ToNumber JNull = Fin 0"
| "ToNumber (JBool b) = (if b then Fin 1 else Fin 0)"
| "ToNumber (JNum n) = n"
| "ToNumber (JStr s) = StringToNumber s"

text \<open>
  \<open>parseInt(s)\<close> without a radix: leading white space and a sign are skipped, a
  \<open>0x\<close> prefix selects radix 16, and the longest prefix of digits is read; no digit
  at all gives NaN.
\<close>

definition parseDigits :: "string \<Rightarrow> jsnum" where
  "parseDigits s =
     (case s of
        c # x # r \<Rightarrow>
          if c = CHR ''0'' \<and> (x = CHR ''x'' \<or> x = CHR ''X'')
          then (let z = takeWhile (isDigitIn 16) r
                in if z = [] then NaN else Fin (real (digitsValue 16 z)))
          else (let z = takeWhile (isDigitIn 10) s
                in if z = [] then NaN else Fin (real (digitsValue 10 z)))
      | _ \<Rightarrow> (let z = takeWhile (isDigitIn 10) s
              in if z = [] then NaN else Fin (real (digitsValue 10 z))))"

definition parseInt :: "string \<Rightarrow> jsnum" where
  "parseInt s =
     (case trimLeft s of
        [] \<Rightarrow> NaN
      | c # r \<Rightarrow>
          if c = CHR ''-'' then js_neg (parseDigits r)
          else if c = CHR ''+'' then parseDigits r
          else parseDigits (c # r))"

section \<open>Trading records\<close>

text \<open>
  The summary reads two properties of a trading record, \<open>CHANGE_NUM\<close> and
  \<open>CURRENT_AVG_PRICE\<close>; both parsers store numbers there. The other properties of a
  record extend \<open>trade\<close>. Text properties hold a string or \<open>null\<close>, and \<open>undefined\<close>
  where a source has no such property. The source's \<open>_RATIO\<close>, \<open>_INSIDER\<close> and
  \<open>_RELATION\<close> are written \<open>U_RATIO\<close>, \<open>U_INSIDER\<close> and \<open>U_RELATION\<close>.
\<close>

record trade =
  CHANGE_NUM :: jsnum
  CURRENT_AVG_PRICE :: jsnum

record trading = trade +
  COMPANY_CODE :: jsval
  COMPANY_ABBR :: jsval
  NAME :: jsval
  CHANGE_DATE :: jsval
  FORM_DATE :: jsval
  CHANGE_REASON :: jsval
  U_RATIO :: jsval
  HOLDSTOCK_NUM :: jsnum
  U_INSIDER :: jsval
  DUTY :: jsval
  U_RELATION :: jsval

section \<open>calcSummary\<close>

text \<open>
  The formats of \<open>conf.fmt\<close> are not part of the sources at hand, and \<open>numeral\<close> is a
  library: \<open>SNumeral v f\<close> stands for the string \<open>numeral(v).format(f)\<close>, where
  \<open>Ft_common\<close> is the default format (\<open>numeral.defaultFormat(ft.common)\<close>, used by
  \<open>format()\<close> without argument). A property of the summary object holds a number, a
  string literal or such a formatted string.
\<close>

datatype fmt = Ft_common | Ft_flot | Ft_money

datatype sval = SNum jsnum | SStr string | SNumeral sval fmt

record ('n, 'p) summary =
  buyShare :: 'n
  sellShare :: 'n
  buyPrice :: 'p
  sellPrice :: 'p
  buyCost :: 'n
  sellProfit :: 'n
  netBuyShare :: 'n
  netBuyCost :: 'n

text \<open>Lines 65-74: the initial summary object.\<close>

definition summary0 :: "(jsnum, sval) summary" where
  "summary0 = \<lparr>buyShare = Fin 0, sellShare = Fin 0, buyPrice = SNum (Fin 0),
               sellPrice = SNum (Fin 0), buyCost = Fin 0, sellProfit = Fin 0,
               netBuyShare = Fin 0, netBuyCost = Fin 0\<rparr>"

text \<open>Lines 75-83: the body of the loop over the records.\<close>

definition accumulate :: "(jsnum, sval) summary \<Rightarrow> 'a trade_scheme \<Rightarrow> (jsnum, sval) summary" where
  "accumulate s t =
     (if js_gt (CHANGE_NUM t) (Fin 0)
      then s\<lparr>buyShare := js_add (buyShare s) (CHANGE_NUM t),
             buyCost := js_add (buyCost s) (js_mul (CHANGE_NUM t) (CURRENT_AVG_PRICE t))\<rparr>
      else s\<lparr>sellShare := js_add (sellShare s) (js_abs (CHANGE_NUM t)),
             sellProfit := js_add (sellProfit s)
                             (js_abs (js_mul (CHANGE_NUM t) (CURRENT_AVG_PRICE t)))\<rparr>)"

text \<open>Lines 85-88: average prices (or the string \<open>N/A\<close>) and net values.\<close>

definition derive :: "(jsnum, sval) summary \<Rightarrow> (jsnum, sval) summary" where
  "derive s =
     s\<lparr>buyPrice := (if js_sne (buyShare s) (Fin 0)
                     then SNum (js_div (buyCost s) (buyShare s)) else SStr ''N/A''),
       sellPrice := (if js_sne (sellShare s) (Fin 0)
                      then SNum (js_div (sellProfit s) (sellShare s)) else SStr ''N/A''),
       netBuyShare := js_sub (buyShare s) (sellShare s),
       netBuyCost := js_sub (buyCost s) (sellProfit s)\<rparr>"

text \<open>Lines 90-97: every property is replaced by its formatted string.\<close>

definition formatSummary :: "(jsnum, sval) summary \<Rightarrow> (sval, sval) summary" where
  "formatSummary s =
     \<lparr>buyShare = SNumeral (SNum (buyShare s)) Ft_common,
      sellShare = SNumeral (SNum (sellShare s)) Ft_common,
      buyPrice = SNumeral (buyPrice s) Ft_flot,
      sellPrice = SNumeral (sellPrice s) Ft_flot,
      buyCost = SNumeral (SNum (buyCost s)) Ft_money,
      sellProfit = SNumeral (SNum (sellProfit s)) Ft_money,
      netBuyShare = SNumeral (SNum (netBuyShare s)) Ft_common,
      netBuyCost = SNumeral (SNum (netBuyCost s)) Ft_money\<rparr>"

text \<open>The summary object as it stands after line 88, before formatting.\<close>

definition totals :: "'a trade_scheme list \<Rightarrow> (jsnum, sval) summary" where
  "totals tradings = derive (foldl accumulate summary0 tradings)"

text \<open>\<open>calcSummary\<close> (lines 62-100); \<open>None\<close> is the returned \<open>null\<close>.\<close>

definition calcSummary :: "'a trade_scheme list \<Rightarrow> (sval, sval) summary option" where
  "calcSummary tradings =
     (if length tradings = 0 then None else Some (formatSummary (totals tradings)))"

section \<open>Variant A: getTradings\<close>

text \<open>
  \<open>cheerio\<close> parses the document. The model takes what the selectors deliver: the rows
  \<open>tr.cls-data-tr\<close> in document order, each as the list of the inner HTML of its
  \<open>td\<close> elements. \<open>$td.eq(i).html()\<close> is the HTML of the cell at index \<open>i\<close>, and
  \<open>null\<close> when the row has no such cell.
\<close>

definition tdHtml :: "string list \<Rightarrow> nat \<Rightarrow> jsval" where
  "tdHtml td i = (if i < length td then JStr (td ! i) else JNull)"

text \<open>Lines 113-126: the record pushed for one row.\<close>

definition rowTrading :: "string list \<Rightarrow> trading" where
  "rowTrading td =
     \<lparr>CHANGE_NUM = ToNumber (tdHtml td 4),
      CURRENT_AVG_PRICE = ToNumber (tdHtml td 5),
      COMPANY_CODE = tdHtml td 0,
      COMPANY_ABBR = tdHtml td 1,
      NAME = tdHtml td 2,
      CHANGE_DATE = tdHtml td 3,
      FORM_DATE = JUndefined,
      CHANGE_REASON = tdHtml td 6,
      U_RATIO = JNum (ToNumber (tdHtml td 7)),
      HOLDSTOCK_NUM = ToNumber (tdHtml td 8),
      U_INSIDER = tdHtml td 9,
      DUTY = tdHtml td 10,
      U_RELATION = tdHtml td 11\<rparr>"

definition getTradings :: "string list list \<Rightarrow> trading list" where
  "getTradings rows = map rowTrading rows"

section \<open>Variant B: the records of the JSONP result\<close>

text \<open>
  \<open>Common.parseJsonP(body).result\<close> is an array of objects; an object is given by its
  properties, each key listed once, and reading a property it does not have gives
  \<open>undefined\<close>. Property values are the scalars of JSON.
\<close>

type_synonym json_object = "(string \<times> jsval) list"

definition getProp :: "json_object \<Rightarrow> string \<Rightarrow> jsval" where
  "getProp obj k = (case map_of obj k of None \<Rightarrow> JUndefined | Some v \<Rightarrow> v)"

text \<open>\<open>n || 0\<close> for a number \<open>n\<close>: NaN and zero are the falsy numbers.\<close>

definition js_or0 :: "jsnum \<Rightarrow> jsnum" where
  "js_or0 n = (if n = NaN \<or> n = Fin 0 then Fin 0 else n)"

text \<open>
  Lines 281-287: the three numeric properties are overwritten in place; the record
  keeps the properties that the display reads.
\<close>

definition normalizeSH :: "json_object \<Rightarrow> trading" where
  "normalizeSH t =
     \<lparr>CHANGE_NUM = ToNumber (getProp t ''CHANGE_NUM''),
      CURRENT_AVG_PRICE = js_or0 (ToNumber (getProp t ''CURRENT_AVG_PRICE'')),
      COMPANY_CODE = getProp t ''COMPANY_CODE'',
      COMPANY_ABBR = getProp t ''COMPANY_ABBR'',
      NAME = getProp t ''NAME'',
      CHANGE_DATE = getProp t ''CHANGE_DATE'',
      FORM_DATE = getProp t ''FORM_DATE'',
      CHANGE_REASON = getProp t ''CHANGE_REASON'',
      U_RATIO = getProp t ''_RATIO'',
      HOLDSTOCK_NUM = ToNumber (getProp t ''HOLDSTOCK_NUM''),
      U_INSIDER = getProp t ''_INSIDER'',
      DUTY = getProp t ''DUTY'',
      U_RELATION = getProp t ''_RELATION''\<rparr>"

text \<open>
  Lines 275-288: the records of a response. The body is given as both parsers would
  see it: its data rows for \<open>cheerio\<close>, its result array for \<open>parseJsonP\<close>.
\<close>

record body =
  html_rows :: "string list list"
  jsonp_result :: "json_object list"

definition tradingsOf :: "string option \<Rightarrow> body \<Rightarrow> trading list" where
  "tradingsOf market b =
     (if market = Some ''sz'' then getTradings (html_rows b)
      else map normalizeSH (jsonp_result b))"

section \<open>Display\<close>

text \<open>
  Lines 145, 146 and 150: what the Shenzhen table shows in its three numeric columns
  (change, average price, holding). Only the holding has a placeholder for NaN.
\<close>

definition szNumericCells :: "trading \<Rightarrow> sval \<times> sval \<times> sval" where
  "szNumericCells t =
     (SNumeral (SNum (CHANGE_NUM t)) Ft_common,
      SNum (CURRENT_AVG_PRICE t),
      if isNaN (HOLDSTOCK_NUM t) then SStr ''-''
      else SNumeral (SNum (HOLDSTOCK_NUM t)) Ft_common)"

section \<open>Messages\<close>

text \<open>The entries of \<open>MSG\<close> (lines 49-55).\<close>

datatype msg = NO_TRADING | PARAM_ERROR | INPUT_ERROR | REQUEST_ERROR | SYSTEM_BUSY

section \<open>getQueryOption\<close>

text \<open>
  The command line (\<open>commander\<close>): an option is the string given for it, or
  \<open>undefined\<close> (\<open>None\<close>). A string is truthy when it is not empty.
\<close>

record cmd_line =
  cmd_span :: "string option"
  cmd_page :: "string option"
  cmd_from :: "string option"
  cmd_to :: "string option"

definition truthy :: "string option \<Rightarrow> bool" where
  "truthy v = (case v of None \<Rightarrow> False | Some s \<Rightarrow> s \<noteq> [])"

text \<open>
  Dates come from \<open>moment\<close> and the formats \<open>ft.inDate\<close> and \<open>ft.outDate\<close> of
  \<open>conf.js\<close>, which are not at hand; a date is kept as the expression that made it:
  \<open>moment()\<close>, \<open>moment().subtract(span, 'month')\<close> or \<open>moment(s, ft.inDate)\<close>. A value
  of the query string is a plain value or such a date formatted with \<open>ft.outDate\<close>.
\<close>

datatype date = Today | MonthsBefore jsnum | Parsed string

datatype qsval = QVal jsval | QDate date

text \<open>
  An entry of \<open>conf.insider\<close> (\<open>spanDefault\<close> is its \<open>span\<close>, a number of months
  being written as its decimal string), and \<open>conf\<close> with the market table
  \<open>conf.market\<close>. Objects are lists of properties in insertion order;
  assigning to a property is \<open>AList.update\<close>. The keys looked up have at most three
  characters or are market names, so no inherited property is ever found.
\<close>

record qoption =
  spanDefault :: "string option"
  qs :: "(string \<times> qsval) list"
  codeKey :: string
  beginKey :: string
  endKey :: string
  catalog :: "(string \<times> string) list"

record config =
  market :: "(string \<times> string) list"
  insider :: "(string \<times> qoption) list"

text \<open>
  What the module keeps between calls: \<open>conf\<close> (the option objects are changed in
  place), the variables \<open>from\<close> and \<open>to\<close> (\<open>None\<close> while they are \<open>null\<close>; then the
  values of the query string they were formatted from), and the messages printed by
  \<open>console.error\<close>.
\<close>

record state =
  conf :: config
  window :: "(qsval option \<times> qsval option) option"
  errors :: "msg list"

datatype 'a completion = Threw_TypeError | Returned 'a

text \<open>\<open>conf.market[code.substr(0,3)]\<close> (lines 202, 213 and 260); \<open>None\<close> is \<open>undefined\<close>.\<close>

definition marketOf :: "config \<Rightarrow> string \<Rightarrow> string option" where
  "marketOf c code = map_of (market c) (take 3 code)"

text \<open>Lines 222-224.\<close>

definition clampSpan :: "string \<Rightarrow> jsnum" where
  "clampSpan spanM =
     (let span = parseInt spanM;
          span1 = (if js_gt span (Fin 24) then Fin 24 else span);
          span2 = (if js_lt span1 (Fin 1) then Fin 1 else span1)
      in span2)"

text \<open>Lines 221-227.\<close>

definition setSpan :: "string option \<Rightarrow> qoption \<Rightarrow> (string \<times> qsval) list \<Rightarrow> (string \<times> qsval) list" where
  "setSpan spanM option q =
     (case spanM of
        None \<Rightarrow> q
      | Some s \<Rightarrow>
          if s = [] then q
          else AList.update (beginKey option) (QDate (MonthsBefore (clampSpan s)))
                 (AList.update (endKey option) (QDate Today) q))"

text \<open>
  Lines 228-235 and 236-243, for \<open>cmd.from\<close> with the begin key and \<open>cmd.to\<close> with the
  end key: \<open>None\<close> is the branch that prints \<open>MSG.PARAM_ERROR\<close> and returns \<open>false\<close>.
  \<open>isValid s\<close> is \<open>moment(s, ft.inDate).isValid()\<close>.
\<close>

definition setBound :: "(string \<Rightarrow> bool) \<Rightarrow> string option \<Rightarrow> string \<Rightarrow> (string \<times> qsval) list
    \<Rightarrow> (string \<times> qsval) list option" where
  "setBound isValid v k q =
     (case v of
        None \<Rightarrow> Some q
      | Some s \<Rightarrow>
          if s = [] then Some q
          else if isValid s then Some (AList.update k (QDate (Parsed s)) q)
          else None)"

definition pageParam :: "cmd_line \<Rightarrow> jsval" where
  "pageParam cmd = (case cmd_page cmd of
                      None \<Rightarrow> JNum (Fin 1)
                    | Some p \<Rightarrow> if p = [] then JNum (Fin 1) else JStr p)"

definition catalogOf :: "qoption \<Rightarrow> string \<Rightarrow> jsval" where
  "catalogOf option code = (case map_of (catalog option) (take 3 code) of
                              None \<Rightarrow> JUndefined
                            | Some c \<Rightarrow> JStr c)"

definition store :: "string \<Rightarrow> qoption \<Rightarrow> (string \<times> qsval) list \<Rightarrow> state \<Rightarrow> state" where
  "store key option q st =
     st\<lparr>conf := (conf st)\<lparr>insider := AList.update key (option\<lparr>qs := q\<rparr>) (insider (conf st))\<rparr>\<rparr>"

definition paramError :: "state \<Rightarrow> state" where
  "paramError st = st\<lparr>errors := errors st @ [PARAM_ERROR]\<rparr>"

text \<open>
  \<open>getQueryOption\<close> (lines 211-248). An unknown prefix makes \<open>market\<close> undefined, and
  \<open>conf.insider[undefined]\<close> reads the property named \<open>undefined\<close>; without it \<open>option\<close>
  is undefined and line 215 or 216 throws a TypeError before anything is changed.
  \<open>Returned None\<close> is the returned \<open>false\<close>.
\<close>

definition getQueryOption :: "(string \<Rightarrow> bool) \<Rightarrow> cmd_line \<Rightarrow> string \<Rightarrow> state
    \<Rightarrow> qoption option completion \<times> state" where
  "getQueryOption isValid cmd code st =
     (let mk = marketOf (conf st) code;
          key = (case mk of None \<Rightarrow> ''undefined'' | Some m \<Rightarrow> m)
      in case map_of (insider (conf st)) key of
           None \<Rightarrow> (Threw_TypeError, st)
         | Some option \<Rightarrow>
             let spanM = (if truthy (cmd_span cmd) then cmd_span cmd else spanDefault option);
                 q1 = AList.update (codeKey option) (QVal (JStr code)) (qs option);
                 q2 = (if mk = Some ''sz''
                       then AList.update ''tab1PAGENUM'' (QVal (pageParam cmd))
                              (AList.update ''CATALOGID'' (QVal (catalogOf option code)) q1)
                       else q1);
                 q3 = setSpan spanM option q2
             in case setBound isValid (cmd_from cmd) (beginKey option) q3 of
                  None \<Rightarrow> (Returned None, paramError (store key option q3 st))
                | Some q4 \<Rightarrow>
                    (case setBound isValid (cmd_to cmd) (endKey option) q4 of
                       None \<Rightarrow> (Returned None, paramError (store key option q4 st))
                     | Some q5 \<Rightarrow>
                         (Returned (Some (option\<lparr>qs := q5\<rparr>)),
                          (store key option q5 st)
                            \<lparr>window := Some (map_of q5 (beginKey option),
                                             map_of q5 (endKey option))\<rparr>)))"

section \<open>queryInsider\<close>

text \<open>
  Lines 255-263, up to the call of \<open>request\<close>: the function returns \<open>false\<close> after
  printing \<open>MSG.INPUT_ERROR\<close>, is left by the TypeError of \<open>getQueryOption\<close>, or calls
  \<open>request(option, callback)\<close> with whatever \<open>getQueryOption\<close> returned
  (\<open>Requested None\<close> is \<open>request(false, callback)\<close>). The test of line 256 is made
  on the exact value of the text; it is the test of the code for every text that is not
  a number and for every string of at most 15 decimal digits, which binary64 holds
  exactly.
\<close>

datatype outcome = Returned_false | Threw | Requested "qoption option"

definition queryInsider :: "(string \<Rightarrow> bool) \<Rightarrow> cmd_line \<Rightarrow> string \<Rightarrow> state \<Rightarrow> outcome \<times> state" where
  "queryInsider isValid cmd code st =
     (if \<not> isInteger (StringToNumber code)
      then (Returned_false, st\<lparr>errors := errors st @ [INPUT_ERROR]\<rparr>)
      else case getQueryOption isValid cmd code st of
             (Threw_TypeError, st') \<Rightarrow> (Threw, st')
           | (Returned option, st') \<Rightarrow> (Requested option, st'))"

text \<open>
  The lines printed with \<open>console.log\<close> by the display functions. A line carries the
  values printed in it; colours, padding and the \<open>printf\<close> layouts are left out. A row
  of a table carries its record (for the text columns) and its three numeric columns.
\<close>

datatype line =
    Log_title string "(qsval option \<times> qsval option) option"
  | Log_msg msg
  | Log_net sval sval
  | Log_buy sval sval sval
  | Log_sell sval sval sval
  | Log_detail_header
  | Log_table_head "string option"
  | Log_row trading "sval \<times> sval \<times> sval"
  | Log_done nat

text \<open>How a function ends: by returning, or by a TypeError that nothing catches.\<close>

datatype ending = Normal | TypeError

definition isString :: "jsval \<Rightarrow> bool" where
  "isString v = (case v of JStr _ \<Rightarrow> True | _ \<Rightarrow> False)"

text \<open>
  \<open>displayTradings\<close> (lines 136-171). The loop calls \<open>replace\<close> and \<open>padOutput\<close> on
  text properties of each record (lines 142-148 for Shenzhen, 160-166 otherwise); on a
  property that is not a string the call throws a TypeError, the rows before it being
  printed already. The numeric columns of the other market have no placeholder.
\<close>

definition szRowOk :: "trading \<Rightarrow> bool" where
  "szRowOk t = (isString (COMPANY_ABBR t) \<and> isString (NAME t) \<and> isString (CHANGE_DATE t)
                \<and> isString (U_INSIDER t))"

definition shRowOk :: "trading \<Rightarrow> bool" where
  "shRowOk t = (isString (COMPANY_ABBR t) \<and> isString (NAME t) \<and> isString (CHANGE_DATE t)
                \<and> isString (FORM_DATE t))"

definition shNumericCells :: "trading \<Rightarrow> sval \<times> sval \<times> sval" where
  "shNumericCells t =
     (SNumeral (SNum (CHANGE_NUM t)) Ft_common,
      SNum (CURRENT_AVG_PRICE t),
      SNumeral (SNum (HOLDSTOCK_NUM t)) Ft_common)"

definition displayTradings :: "string option \<Rightarrow> trading list \<Rightarrow> line list \<times> ending" where
  "displayTradings mk tradings =
     (if mk = Some ''sz''
      then (Log_table_head mk
              # map (\<lambda>t. Log_row t (szNumericCells t)) (takeWhile szRowOk tradings),
            if list_all szRowOk tradings then Normal else TypeError)
      else (Log_table_head mk
              # map (\<lambda>t. Log_row t (shNumericCells t)) (takeWhile shRowOk tradings),
            if list_all shRowOk tradings then Normal else TypeError))"

text \<open>
  \<open>displayDetail\<close> (lines 179-204). Without a summary it prints the title and
  \<open>MSG.NO_TRADING\<close> and returns; otherwise it prints the summary and the table.
\<close>

definition displayDetail :: "state \<Rightarrow> string \<Rightarrow> (sval, sval) summary option \<Rightarrow> trading list
    \<Rightarrow> line list \<times> ending" where
  "displayDetail st code summary tradings =
     (case summary of
        None \<Rightarrow> ([Log_title code (window st), Log_msg NO_TRADING], Normal)
      | Some s \<Rightarrow>
          (let (rows, e) = displayTradings (marketOf (conf st) code) tradings
           in ([Log_title code (window st),
                Log_net (netBuyShare s) (netBuyCost s),
                Log_buy (buyShare s) (buyPrice s) (buyCost s),
                Log_sell (sellShare s) (sellPrice s) (sellProfit s),
                Log_detail_header] @ rows, e)))"

text \<open>
  Lines 275-299, the callback of \<open>request\<close> on a response with status 200: parse,
  summarise, display, and the closing lines (\<open>Log_done\<close>, with the number of records),
  which a TypeError of the display leaves out.
\<close>

definition onSuccess :: "state \<Rightarrow> string \<Rightarrow> body \<Rightarrow> line list \<times> ending" where
  "onSuccess st code b =
     (let tradings = tradingsOf (marketOf (conf st) code) b;
          summary = calcSummary tradings;
          (ls, e) = displayDetail st code summary tradings
      in (if e = Normal then ls @ [Log_done (length tradings)] else ls, e))"

section \<open>A configuration for evaluation\<close>

text \<open>
  \<open>conf.js\<close> is not among the sources; the theorems below take the configuration as a
  parameter. For evaluating them this configuration has the shape the module expects:
  the prefixes of the examples in the header of \<open>insider.js\<close>, and one entry per market.
\<close>

definition sample_conf :: config where
  "sample_conf =
     \<lparr>market = [(''000'', ''sz''), (''002'', ''sz''), (''300'', ''sz''),
                (''600'', ''sh''), (''601'', ''sh''), (''603'', ''sh'')],
      insider =
        [(''sz'', \<lparr>spanDefault = Some ''6'', qs = [(''ACTIONID'', QVal (JStr ''7''))],
                  codeKey = ''txtDMorJC'', beginKey = ''txtStart'', endKey = ''txtEnd'',
                  catalog = [(''000'', ''1801_cxda''), (''002'', ''1801_zxb''),
                             (''300'', ''1801_cyb'')]\<rparr>),
         (''sh'', \<lparr>spanDefault = Some ''6'', qs = [(''isPagination'', QVal (JStr ''true''))],
                  codeKey = ''COMPANY_CODE'', beginKey = ''BEGIN_DATE'', endKey = ''END_DATE'',
                  catalog = []\<rparr>)]\<rparr>"

definition sample_state :: state where
  "sample_state = \<lparr>conf = sample_conf, window = None, errors = []\<rparr>"

definition no_options :: cmd_line where
  "no_options = \<lparr>cmd_span = None, cmd_page = None, cmd_from = None, cmd_to = None\<rparr>"

text \<open>A date check for evaluation: ten characters \<open>dddd/dd/dd\<close>.\<close>

definition sample_isValid :: "string \<Rightarrow> bool" where
  "sample_isValid s =
     (length s = 10 \<and> s ! 4 = CHR ''/'' \<and> s ! 7 = CHR ''/''
      \<and> list_all (isDigitIn 10) (take 4 s @ take 2 (drop 5 s) @ drop 8 s))"

section \<open>Arithmetic facts\<close>

lemma js_add_zero [simp]: "js_add x (Fin 0) = x"
  by (cases x) simp_all

lemma js_add_NaN_right [simp]: "js_add x NaN = NaN"
  by (cases x) simp_all

section \<open>Text that is not a number\<close>

































lemmas conv_defs = StringToNumber_def trimString_def trimLeft_def isStrWhiteSpaceChar_def
  decimalLiteral_def unsignedDecimal_def cutAt_def signedInteger_def isDigits_def isDigitIn_def
  digitValue_def digitsValue_def pow10_def nonDecimalLiteral_def parseInt_def parseDigits_def

section \<open>The summary calculator\<close>

lemmas summary_defs = calcSummary_def totals_def derive_def accumulate_def summary0_def
  formatSummary_def js_sne_def js_sub_def

lemma accumulate_buy:
  "CHANGE_NUM t = Fin c \<Longrightarrow> 0 < c \<Longrightarrow>
   accumulate s t = s\<lparr>buyShare := js_add (buyShare s) (Fin c),
                      buyCost := js_add (buyCost s) (js_mul (Fin c) (CURRENT_AVG_PRICE t))\<rparr>"
  by (simp add: accumulate_def)

lemma accumulate_sell:
  "CHANGE_NUM t = Fin c \<Longrightarrow> c \<le> 0 \<Longrightarrow>
   accumulate s t = s\<lparr>sellShare := js_add (sellShare s) (Fin \<bar>c\<bar>),
                      sellProfit := js_add (sellProfit s)
                                      (js_abs (js_mul (Fin c) (CURRENT_AVG_PRICE t)))\<rparr>"
  by (simp add: accumulate_def)


























text \<open>
  C2. For the empty list \<open>calcSummary\<close> returns \<open>null\<close>, and only for the empty list, so
  there is no empty or zeroed summary object. The caller takes it as the normal outcome:
  \<open>displayDetail\<close> prints the title and the message \<open>NO_TRADING\<close> with \<open>console.log\<close>,
  and the callback of a response without records ends with its closing line.
\<close>

theorem calcSummary_empty_is_null:
  "calcSummary ([] :: 'a trade_scheme list) = None
   \<and> (calcSummary ts = None) = (ts = [])
   \<and> displayDetail st code (calcSummary ([] :: trading list)) []
       = ([Log_title code (window st), Log_msg NO_TRADING], Normal)
   \<and> onSuccess st code \<lparr>html_rows = [], jsonp_result = []\<rparr>
       = ([Log_title code (window st), Log_msg NO_TRADING, Log_done 0], Normal)"
  by (simp add: calcSummary_def displayDetail_def onSuccess_def tradingsOf_def getTradings_def)

text \<open>
  C1, as stated, fails: for the two records of the scenario \<open>calcSummary\<close> does not
  return the raw numbers. Lines 90-97 replace every property of the summary by the
  string that \<open>numeral\<close> formats from it.
\<close>

theorem calcSummary_scenario_not_raw:
  "calcSummary [\<lparr>CHANGE_NUM = Fin 1000, CURRENT_AVG_PRICE = Fin 10\<rparr>,
                \<lparr>CHANGE_NUM = Fin (- 400), CURRENT_AVG_PRICE = Fin 12\<rparr>]
   \<noteq> Some \<lparr>buyShare = SNum (Fin 1000), sellShare = SNum (Fin 400),
             buyPrice = SNum (Fin 10), sellPrice = SNum (Fin 12),
             buyCost = SNum (Fin 10000), sellProfit = SNum (Fin 4800),
             netBuyShare = SNum (Fin 600), netBuyCost = SNum (Fin 5200)\<rparr>"
  by (simp add: summary_defs)

text \<open>
  C1, amended. For two records with \<open>CHANGE_NUM\<close> 1000 and -400 and
  \<open>CURRENT_AVG_PRICE\<close> 10 and 12 (whatever their other properties), the summary object
  holds after line 88 the numbers 1000, 400, 10, 12, 10000, 4800, 600 and 5200, and
  \<open>calcSummary\<close> returns them formatted by \<open>numeral\<close>: the share counts with the default
  format, the average prices with \<open>ft.flot\<close>, the amounts with \<open>ft.money\<close>.
\<close>

theorem calcSummary_scenario:
  "totals [t1\<lparr>CHANGE_NUM := Fin 1000, CURRENT_AVG_PRICE := Fin 10\<rparr>,
           t2\<lparr>CHANGE_NUM := Fin (- 400), CURRENT_AVG_PRICE := Fin 12\<rparr>]
   = \<lparr>buyShare = Fin 1000, sellShare = Fin 400,
      buyPrice = SNum (Fin 10), sellPrice = SNum (Fin 12),
      buyCost = Fin 10000, sellProfit = Fin 4800,
      netBuyShare = Fin 600, netBuyCost = Fin 5200\<rparr>
   \<and> calcSummary [t1\<lparr>CHANGE_NUM := Fin 1000, CURRENT_AVG_PRICE := Fin 10\<rparr>,
                  t2\<lparr>CHANGE_NUM := Fin (- 400), CURRENT_AVG_PRICE := Fin 12\<rparr>]
   = Some \<lparr>buyShare = SNumeral (SNum (Fin 1000)) Ft_common,
            sellShare = SNumeral (SNum (Fin 400)) Ft_common,
            buyPrice = SNumeral (SNum (Fin 10)) Ft_flot,
            sellPrice = SNumeral (SNum (Fin 12)) Ft_flot,
            buyCost = SNumeral (SNum (Fin 10000)) Ft_money,
            sellProfit = SNumeral (SNum (Fin 4800)) Ft_money,
            netBuyShare = SNumeral (SNum (Fin 600)) Ft_common,
            netBuyCost = SNumeral (SNum (Fin 5200)) Ft_money\<rparr>"
  by (simp add: summary_defs)




section \<open>Variant B: the average price that is missing\<close>

lemma js_or0_not_NaN: "js_or0 n \<noteq> NaN"
  by (simp add: js_or0_def)









section \<open>Variant A: the cells of a row\<close>






section \<open>NaN in the records of Variant A\<close>









section \<open>The query builder\<close>

lemmas sample_defs = sample_state_def sample_conf_def no_options_def sample_isValid_def

lemma parseInt_abc: "parseInt ''abc'' = NaN"
  by (simp add: conv_defs)

lemma clampSpan_numeric:
  assumes "parseInt s \<noteq> NaN"
  shows "\<exists>k. clampSpan s = Fin k \<and> 1 \<le> k \<and> k \<le> 24"
  using assms by (cases "parseInt s") (auto simp: clampSpan_def js_lt_def Let_def)

lemma clampSpan_NaN: "parseInt s = NaN \<Longrightarrow> clampSpan s = NaN"
  by (simp add: clampSpan_def js_lt_def)



lemma invalid_from_returns_false:
  assumes "marketOf (conf st) code = Some m" "map_of (insider (conf st)) m = Some opt"
    and "cmd_from cmd = Some f" "f \<noteq> []" "\<not> isValid f"
  shows "fst (getQueryOption isValid cmd code st) = Returned None"
    and "errors (snd (getQueryOption isValid cmd code st)) = errors st @ [PARAM_ERROR]"
    and "window (snd (getQueryOption isValid cmd code st)) = window st"
  using assms
  by (simp_all add: getQueryOption_def Let_def setBound_def paramError_def store_def)

lemma invalid_to_returns_false:
  assumes "marketOf (conf st) code = Some m" "map_of (insider (conf st)) m = Some opt"
    and "cmd_to cmd = Some f" "f \<noteq> []" "\<not> isValid f"
  shows "fst (getQueryOption isValid cmd code st) = Returned None"
    and "errors (snd (getQueryOption isValid cmd code st)) = errors st @ [PARAM_ERROR]"
  using assms
  by (auto simp add: getQueryOption_def Let_def setBound_def paramError_def store_def
           split: option.splits)

lemma invalid_from_requests_anyway:
  assumes "marketOf (conf st) code = Some m" "map_of (insider (conf st)) m = Some opt"
    and "cmd_from cmd = Some f" "f \<noteq> []" "\<not> isValid f"
    and "isInteger (StringToNumber code)"
  shows "fst (queryInsider isValid cmd code st) = Requested None"
proof -
  have "fst (getQueryOption isValid cmd code st) = Returned None"
    using assms(1-5) by (rule invalid_from_returns_false(1))
  then show ?thesis
    using assms(6) by (cases "getQueryOption isValid cmd code st") (simp add: queryInsider_def)
qed

text \<open>
  C3 at the span \<open>abc\<close> (\<open>--span abc\<close>) for the code 600118: \<open>parseInt\<close> gives NaN, both
  comparisons of lines 223 and 224 are false, and the begin date of the returned query
  is computed from the span NaN, which is not between 1 and 24. (Lemma
  \<open>clampSpan_numeric\<close>: whenever \<open>parseInt\<close> gives a number, the span is between 1
  and 24.)
\<close>

theorem span_text_is_not_clamped:
  "parseInt ''abc'' = NaN
   \<and> clampSpan ''abc'' = NaN
   \<and> fst (getQueryOption sample_isValid (no_options\<lparr>cmd_span := Some ''abc''\<rparr>) ''600118''
            sample_state)
     = Returned (Some \<lparr>spanDefault = Some ''6'',
                       qs = [(''isPagination'', QVal (JStr ''true'')),
                             (''COMPANY_CODE'', QVal (JStr ''600118'')),
                             (''END_DATE'', QDate Today),
                             (''BEGIN_DATE'', QDate (MonthsBefore NaN))],
                       codeKey = ''COMPANY_CODE'', beginKey = ''BEGIN_DATE'',
                       endKey = ''END_DATE'', catalog = []\<rparr>)"
proof -
  have c: "clampSpan ''abc'' = NaN"
    using parseInt_abc by (rule clampSpan_NaN)
  have "fst (getQueryOption sample_isValid (no_options\<lparr>cmd_span := Some ''abc''\<rparr>) ''600118''
            sample_state)
     = Returned (Some \<lparr>spanDefault = Some ''6'',
                       qs = [(''isPagination'', QVal (JStr ''true'')),
                             (''COMPANY_CODE'', QVal (JStr ''600118'')),
                             (''END_DATE'', QDate Today),
                             (''BEGIN_DATE'', QDate (MonthsBefore (clampSpan ''abc'')))],
                       codeKey = ''COMPANY_CODE'', beginKey = ''BEGIN_DATE'',
                       endKey = ''END_DATE'', catalog = []\<rparr>)"
    by (simp add: getQueryOption_def marketOf_def truthy_def setSpan_def setBound_def store_def
                  sample_defs Let_def)
  then show ?thesis using c parseInt_abc by simp
qed




text \<open>
  C5 at the value \<open>garbage\<close> for \<open>--from\<close> and the code 600118: \<open>getQueryOption\<close> prints
  \<open>PARAM_ERROR\<close> and returns \<open>false\<close>, and \<open>queryInsider\<close> goes on to call
  \<open>request(false, callback)\<close>; the option object in \<open>conf\<close> keeps the code and the dates
  of the span written before the check. (Lemmas \<open>invalid_from_returns_false\<close> and
  \<open>invalid_from_requests_anyway\<close> state this for every invalid value.)
\<close>

theorem invalid_from_still_calls_request:
  "queryInsider sample_isValid (no_options\<lparr>cmd_from := Some ''garbage''\<rparr>) ''600118'' sample_state
   = (Requested None,
      \<lparr>conf = sample_conf
          \<lparr>insider :=
             [(''sz'', \<lparr>spanDefault = Some ''6'', qs = [(''ACTIONID'', QVal (JStr ''7''))],
                       codeKey = ''txtDMorJC'', beginKey = ''txtStart'', endKey = ''txtEnd'',
                       catalog = [(''000'', ''1801_cxda''), (''002'', ''1801_zxb''),
                                  (''300'', ''1801_cyb'')]\<rparr>),
              (''sh'', \<lparr>spanDefault = Some ''6'',
                       qs = [(''isPagination'', QVal (JStr ''true'')),
                             (''COMPANY_CODE'', QVal (JStr ''600118'')),
                             (''END_DATE'', QDate Today),
                             (''BEGIN_DATE'', QDate (MonthsBefore (Fin 6)))],
                       codeKey = ''COMPANY_CODE'', beginKey = ''BEGIN_DATE'',
                       endKey = ''END_DATE'', catalog = []\<rparr>)]\<rparr>,
       window = None, errors = [PARAM_ERROR]\<rparr>)"
proof -
  have i: "isInteger (StringToNumber ''600118'')"
    by (simp add: isInteger_def conv_defs)
  have s: "clampSpan ''6'' = Fin 6"
    by (simp add: clampSpan_def js_lt_def conv_defs)
  have v: "\<not> sample_isValid ''garbage''"
    by (simp add: sample_isValid_def)
  show ?thesis
    using i s v
    by (simp add: queryInsider_def getQueryOption_def marketOf_def truthy_def setSpan_def
                  setBound_def store_def paramError_def sample_state_def sample_conf_def
                  no_options_def Let_def)
qed

end
